theory Spec2Isabelle
  imports Complex_Main
begin

section \<open>JavaScript numbers\<close>

text \<open>
  The evaluator computes with the JavaScript type \<open>number\<close>: IEEE-754 binary64 with
  round-to-nearest, ties-to-even. A value is \<open>NaN\<close>, an infinity with its sign, or a
  finite value given by its sign (\<open>True\<close> is negative) and its magnitude, an exact
  rational; both zeros exist (\<open>Fin False 0\<close> and \<open>Fin True 0\<close>). Every operation
  computes the exact rational result and rounds it with \<open>roundToDouble\<close>.
\<close>

datatype number = NaN | Infinity bool | Fin bool rat

text \<open>The number of binary digits of a positive integer.\<close>

function bitLength :: "int \<Rightarrow> int" where
  "bitLength n = (if n \<le> 0 then 0 else bitLength (n div 2) + 1)"
  by pat_completeness auto
termination
  by (relation "measure nat") auto

declare bitLength.simps [simp del]

text \<open>
  \<open>ilog2 q\<close> is the binary exponent of a positive rational: \<open>2^e \<le> q < 2^(e+1)\<close>
  (\<open>x powi e\<close> is the power with an integer exponent).
\<close>

definition ilog2 :: "rat \<Rightarrow> int" where
  "ilog2 q =
     (let e0 = bitLength (fst (quotient_of q)) - bitLength (snd (quotient_of q))
      in if 2 powi e0 \<le> q then e0 else e0 - 1)"

definition roundHalfEven :: "rat \<Rightarrow> int" where
  "roundHalfEven x =
     (let f = \<lfloor>x\<rfloor>; d = x - of_int f
      in if d < 1 / 2 then f else if 1 / 2 < d then f + 1 else if even f then f else f + 1)"

text \<open>
  Rounding a magnitude \<open>m \<ge> 0\<close> to binary64: 53 significant bits in the normal range
  (exponents \<open>-1022 .. 1023\<close>), the fixed quantum \<open>2^-1074\<close> below it, and overflow to
  infinity once the rounded value reaches \<open>2^1024\<close>.
\<close>

definition roundToDouble :: "bool \<Rightarrow> rat \<Rightarrow> number" where
  "roundToDouble s m =
     (if m = 0 then Fin s 0
      else let k = max (ilog2 m - 52) (- 1074);
               r = of_int (roundHalfEven (m / 2 powi k)) * 2 powi k
           in if 2 ^ 1024 \<le> r then Infinity s else Fin s r)"

definition signedValue :: "bool \<Rightarrow> rat \<Rightarrow> rat" where
  "signedValue s m = (if s then - m else m)"

fun jsNeg :: "number \<Rightarrow> number" where
  "jsNeg NaN = NaN"
| "jsNeg (Infinity s) = Infinity (\<not> s)"
| "jsNeg (Fin s m) = Fin (\<not> s) m"

fun jsAdd :: "number \<Rightarrow> number \<Rightarrow> number" where
  "jsAdd NaN y = NaN"
| "jsAdd x NaN = NaN"
| "jsAdd (Infinity s) (Infinity t) = (if s = t then Infinity s else NaN)"
| "jsAdd (Infinity s) (Fin t b) = Infinity s"
| "jsAdd (Fin s a) (Infinity t) = Infinity t"
| "jsAdd (Fin s a) (Fin t b) =
     (let r = signedValue s a + signedValue t b
      in if r = 0 then Fin (s \<and> t) 0 else roundToDouble (r < 0) \<bar>r\<bar>)"

definition jsSub :: "number \<Rightarrow> number \<Rightarrow> number" where
  "jsSub x y = jsAdd x (jsNeg y)"

fun jsMul :: "number \<Rightarrow> number \<Rightarrow> number" where
  "jsMul NaN y = NaN"
| "jsMul x NaN = NaN"
| "jsMul (Infinity s) (Infinity t) = Infinity (s \<noteq> t)"
| "jsMul (Infinity s) (Fin t b) = (if b = 0 then NaN else Infinity (s \<noteq> t))"
| "jsMul (Fin s a) (Infinity t) = (if a = 0 then NaN else Infinity (s \<noteq> t))"
| "jsMul (Fin s a) (Fin t b) = roundToDouble (s \<noteq> t) (a * b)"

fun jsDiv :: "number \<Rightarrow> number \<Rightarrow> number" where
  "jsDiv NaN y = NaN"
| "jsDiv x NaN = NaN"
| "jsDiv (Infinity s) (Infinity t) = NaN"
| "jsDiv (Infinity s) (Fin t b) = Infinity (s \<noteq> t)"
| "jsDiv (Fin s a) (Infinity t) = Fin (s \<noteq> t) 0"
| "jsDiv (Fin s a) (Fin t b) =
     (if b = 0 then (if a = 0 then NaN else Infinity (s \<noteq> t))
      else roundToDouble (s \<noteq> t) (a / b))"

text \<open>Strict equality \<open>===\<close> on numbers: \<open>NaN\<close> equals nothing, the two zeros are equal.\<close>

fun jsStrictEq :: "number \<Rightarrow> number \<Rightarrow> bool" where
  "jsStrictEq (Infinity s) (Infinity t) = (s = t)"
| "jsStrictEq (Fin s a) (Fin t b) = (signedValue s a = signedValue t b)"
| "jsStrictEq x y = False"

definition isNaN :: "number \<Rightarrow> bool" where
  "isNaN x = (x = NaN)"

fun isFinite :: "number \<Rightarrow> bool" where
  "isFinite (Fin s m) = True"
| "isFinite x = False"

subsection \<open>\<open>Number(string)\<close>\<close>

text \<open>
  \<open>Number\<close> applied to a string, on the strings this program passes to it: a run of
  digits and \<open>.\<close>, possibly after one \<open>-\<close>. Such a string is a numeric literal when it
  is \<open>digits\<close>, \<open>digits.\<close>, \<open>digits.digits\<close> or \<open>.digits\<close>; its value is the decimal
  value, correctly rounded. Every other string of these characters gives \<open>NaN\<close>; the
  empty string gives \<open>+0\<close>.
\<close>

definition isDigit :: "char \<Rightarrow> bool" where
  "isDigit c = (c \<in> set ''0123456789'')"

definition digitVal :: "char \<Rightarrow> int" where
  "digitVal c = of_char c - 48"

fun decimalValue :: "int \<Rightarrow> string \<Rightarrow> int" where
  "decimalValue acc [] = acc"
| "decimalValue acc (c # cs) = decimalValue (10 * acc + digitVal c) cs"

definition strUnsignedDecimal :: "string \<Rightarrow> rat option" where
  "strUnsignedDecimal s =
     (let ip = takeWhile isDigit s
      in case dropWhile isDigit s of
           [] \<Rightarrow> if ip = [] then None else Some (of_int (decimalValue 0 ip))
         | c # fp \<Rightarrow>
             if c = CHR ''.'' \<and> list_all isDigit fp \<and> (ip \<noteq> [] \<or> fp \<noteq> [])
             then Some (of_int (decimalValue 0 (ip @ fp)) / 10 ^ length fp)
             else None)"

definition jsNumber :: "string \<Rightarrow> number" where
  "jsNumber s =
     (case s of
        [] \<Rightarrow> Fin False 0
      | c # r \<Rightarrow>
          if c = CHR ''-''
          then (case strUnsignedDecimal r of None \<Rightarrow> NaN | Some m \<Rightarrow> roundToDouble True m)
          else (case strUnsignedDecimal s of None \<Rightarrow> NaN | Some m \<Rightarrow> roundToDouble False m))"

section \<open>The expression evaluator\<close>

text \<open>
  \<open>evaluateExpression\<close> of \<open>src/utils/QueryProcessor.tsx\<close>. Its three loops are three
  recursive functions; each \<open>throw new Error(...)\<close> is a value of \<open>error\<close>:
  \<open>'Invalid number'\<close>, \<open>'Invalid character in expression: ' + ch\<close>,
  \<open>'Mismatched parentheses'\<close>, \<open>'Invalid expression'\<close> (the spec's
  \<open>MalformedExpression\<close>), \<open>'Division by zero'\<close> and \<open>'Unknown operator ' + value\<close>.
\<close>

datatype token = Number number | Op char | Paren char

datatype error =
    InvalidNumber
  | InvalidCharacter char
  | MismatchedParentheses
  | MalformedExpression
  | DivisionByZero
  | UnknownOperator char

subsection \<open>Tokenizer\<close>

text \<open>The character class \<open>/[0-9.]/\<close>.\<close>

definition isNumChar :: "char \<Rightarrow> bool" where
  "isNumChar c = (isDigit c \<or> c = CHR ''.'')"

text \<open>
  The test \<open>!prev || prev.type === 'op' || (prev.type === 'paren' && prev.value === '(')\<close>
  on the last token pushed so far.
\<close>

fun unaryPosition :: "token list \<Rightarrow> bool" where
  "unaryPosition [] = True"
| "unaryPosition tokens =
     (case last tokens of
        Op v \<Rightarrow> True
      | Paren v \<Rightarrow> v = CHR ''(''
      | Number v \<Rightarrow> False)"

text \<open>
  The scanning loop \<open>while (i < len)\<close>. The second argument is the rest of the input
  from index \<open>i\<close> on; \<open>tokens.push(t)\<close> is \<open>tokens @ [t]\<close>. The inner loops that
  collect \<open>numStr\<close> up to index \<open>j\<close> are \<open>takeWhile isNumChar\<close>, and \<open>i = j\<close>
  continues with \<open>dropWhile isNumChar\<close>.
\<close>

function tokenizeLoop :: "token list \<Rightarrow> string \<Rightarrow> error + token list" where
  "tokenizeLoop tokens [] = Inr tokens"
| "tokenizeLoop tokens (ch # rest) =
     (if ch = CHR ''('' \<or> ch = CHR '')'' then tokenizeLoop (tokens @ [Paren ch]) rest
      else if ch = CHR ''+'' \<or> ch = CHR ''*'' \<or> ch = CHR ''/'' \<or> ch = CHR ''-'' then
        (if ch = CHR ''-'' \<and> unaryPosition tokens then
           (if CHR ''-'' # takeWhile isNumChar rest = ''-''
            then tokenizeLoop (tokens @ [Op ch]) rest
            else if isNaN (jsNumber (CHR ''-'' # takeWhile isNumChar rest)) then Inl InvalidNumber
            else tokenizeLoop
                   (tokens @ [Number (jsNumber (CHR ''-'' # takeWhile isNumChar rest))])
                   (dropWhile isNumChar rest))
         else tokenizeLoop (tokens @ [Op ch]) rest)
      else if isNumChar ch then
        (if isNaN (jsNumber (takeWhile isNumChar (ch # rest))) then Inl InvalidNumber
         else tokenizeLoop
                (tokens @ [Number (jsNumber (takeWhile isNumChar (ch # rest)))])
                (dropWhile isNumChar (ch # rest)))
      else Inl (InvalidCharacter ch))"
  by pat_completeness auto
termination
  by (relation "measure (\<lambda>(tokens, s). length s)")
     (auto simp: le_imp_less_Suc length_dropWhile_le)

declare tokenizeLoop.simps [simp del]

definition tokenize :: "string \<Rightarrow> error + token list" where
  "tokenize expr = tokenizeLoop [] expr"

subsection \<open>Shunting-yard: infix to postfix\<close>

definition precedence :: "char \<Rightarrow> nat" where
  "precedence op = (if op = CHR ''+'' \<or> op = CHR ''-'' then 1 else 2)"

text \<open>
  The operator stack \<open>ops\<close> is a list with its top at the head; \<open>output.push(t)\<close> is
  \<open>output @ [t]\<close>. \<open>popOperators\<close> is the loop \<open>while (ops.length)\<close> run for an
  operator token with value \<open>v\<close>.
\<close>

fun popOperators :: "char \<Rightarrow> token list \<Rightarrow> token list \<Rightarrow> token list \<times> token list" where
  "popOperators v output [] = (output, [])"
| "popOperators v output (Op w # ops) =
     (if precedence v < precedence w \<or> precedence w = precedence v
      then popOperators v (output @ [Op w]) ops
      else (output, Op w # ops))"
| "popOperators v output (t # ops) = (output, t # ops)"

text \<open>
  The loop run for a closing parenthesis: pop until an opening parenthesis is popped;
  an empty stack (\<open>popped\<close> undefined) is the error.
\<close>

fun popToParen :: "token list \<Rightarrow> token list \<Rightarrow> error + token list \<times> token list" where
  "popToParen output [] = Inl MismatchedParentheses"
| "popToParen output (popped # ops) =
     (if popped = Paren CHR ''('' then Inr (output, ops)
      else popToParen (output @ [popped]) ops)"

text \<open>The final loop that empties the operator stack.\<close>

fun drainOps :: "token list \<Rightarrow> token list \<Rightarrow> error + token list" where
  "drainOps output [] = Inr output"
| "drainOps output (Paren v # ops) = Inl MismatchedParentheses"
| "drainOps output (popped # ops) = drainOps (output @ [popped]) ops"

fun shuntingYard :: "token list \<Rightarrow> token list \<Rightarrow> token list \<Rightarrow> error + token list" where
  "shuntingYard output ops [] = drainOps output ops"
| "shuntingYard output ops (Number v # ts) = shuntingYard (output @ [Number v]) ops ts"
| "shuntingYard output ops (Op v # ts) =
     (case popOperators v output ops of
        (output', ops') \<Rightarrow> shuntingYard output' (Op v # ops') ts)"
| "shuntingYard output ops (Paren v # ts) =
     (if v = CHR ''('' then shuntingYard output (Paren v # ops) ts
      else case popToParen output ops of
             Inl e \<Rightarrow> Inl e
           | Inr (output', ops') \<Rightarrow> shuntingYard output' ops' ts)"

definition toRPN :: "token list \<Rightarrow> error + token list" where
  "toRPN tokens = shuntingYard [] [] tokens"

subsection \<open>Postfix evaluation\<close>

text \<open>The \<open>switch\<close> on the operator; \<open>b === 0\<close> is true of both zeros.\<close>

definition applyOp :: "char \<Rightarrow> number \<Rightarrow> number \<Rightarrow> error + number" where
  "applyOp v a b =
     (if v = CHR ''+'' then Inr (jsAdd a b)
      else if v = CHR ''-'' then Inr (jsSub a b)
      else if v = CHR ''*'' then Inr (jsMul a b)
      else if v = CHR ''/'' then
        (if jsStrictEq b (Fin False 0) then Inl DivisionByZero else Inr (jsDiv a b))
      else Inl (UnknownOperator v))"

text \<open>
  The operand stack is a list with its top at the head. \<open>b\<close> is popped first, then
  \<open>a\<close>; a stack of fewer than two numbers leaves one of them undefined. A token that
  is neither a number nor an operator is skipped, as the source's \<open>if / else if\<close> does.
\<close>

fun evalRPN :: "number list \<Rightarrow> token list \<Rightarrow> error + number" where
  "evalRPN stack [] = (case stack of [v] \<Rightarrow> Inr v | _ \<Rightarrow> Inl MalformedExpression)"
| "evalRPN stack (Number v # ts) = evalRPN (v # stack) ts"
| "evalRPN stack (Op v # ts) =
     (case stack of
        b # a # stack' \<Rightarrow>
          (case applyOp v a b of
             Inl e \<Rightarrow> Inl e
           | Inr res \<Rightarrow> evalRPN (res # stack') ts)
      | _ \<Rightarrow> Inl MalformedExpression)"
| "evalRPN stack (Paren v # ts) = evalRPN stack ts"

definition evaluateExpression :: "string \<Rightarrow> error + number" where
  "evaluateExpression expr =
     (case tokenize expr of
        Inl e \<Rightarrow> Inl e
      | Inr tokens \<Rightarrow>
          (case toRPN tokens of
             Inl e \<Rightarrow> Inl e
           | Inr output \<Rightarrow> evalRPN [] output))"

section \<open>Well-formed infix token sequences\<close>








section \<open>The query handler\<close>

text \<open>
  \<open>QueryProcessor\<close> of \<open>src/utils/QueryProcessor.tsx\<close>. Strings are lists of 8-bit
  characters, the Latin-1 range of JavaScript's code units. The conversions between
  numbers and display strings (\<open>String(n)\<close>, \<open>n.toFixed(10)\<close>, \<open>parseFloat(s)\<close>) belong
  to the JavaScript runtime and are parameters of the model; none of them throws. So is
  \<open>maxArguments\<close>, the largest number of arguments the engine accepts in one call:
  ECMAScript does not fix it, and a call with more arguments throws a \<open>RangeError\<close>.
\<close>

record runtime =
  numberToString :: "number \<Rightarrow> string"
  toFixed10 :: "number \<Rightarrow> string"
  parseFloat :: "string \<Rightarrow> number"
  maxArguments :: nat

text \<open>The exceptions that can leave the handler.\<close>

datatype exception = RangeError

subsection \<open>Characters and strings\<close>

text \<open>\<open>toLowerCase\<close>: the letters \<open>A-Z\<close> and the upper-case letters of Latin-1.\<close>

definition toLowerChar :: "char \<Rightarrow> char" where
  "toLowerChar c =
     (let n = of_char c :: nat
      in if (65 \<le> n \<and> n \<le> 90) \<or> (192 \<le> n \<and> n \<le> 222 \<and> n \<noteq> 215)
         then char_of (n + 32) else c)"

definition toLowerCase :: "string \<Rightarrow> string" where
  "toLowerCase s = map toLowerChar s"

text \<open>\<open>s.includes(sub)\<close>, which is also what \<open>test\<close> of a regular expression made of
  literal characters computes.\<close>

fun stringIncludes :: "string \<Rightarrow> string \<Rightarrow> bool" where
  "stringIncludes [] sub = (sub = [])"
| "stringIncludes (c # cs) sub = (take (length sub) (c # cs) = sub \<or> stringIncludes cs sub)"

text \<open>The classes \<open>\s\<close> (white space) and \<open>\w\<close> (word characters).\<close>

definition isSpace :: "char \<Rightarrow> bool" where
  "isSpace c = (of_char c \<in> set [9, 10, 11, 12, 13, 32, 160 :: nat])"

definition isWordChar :: "char \<Rightarrow> bool" where
  "isWordChar c =
     (let n = of_char c :: nat
      in (48 \<le> n \<and> n \<le> 57) \<or> (65 \<le> n \<and> n \<le> 90) \<or> n = 95 \<or> (97 \<le> n \<and> n \<le> 122))"

definition trim :: "string \<Rightarrow> string" where
  "trim s = rev (dropWhile isSpace (rev (dropWhile isSpace s)))"

subsection \<open>The largest number of a list\<close>

text \<open>
  One match of \<open>/-?\d+\.?\d*/\<close> at the start of a string, or the empty string when
  there is none: an optional \<open>-\<close>, digits, and optionally a point and more digits.
\<close>

definition numberBody :: "string \<Rightarrow> string" where
  "numberBody s =
     (if takeWhile isDigit s = [] then []
      else case dropWhile isDigit s of
             [] \<Rightarrow> takeWhile isDigit s
           | c # r \<Rightarrow>
               if c = CHR ''.'' then takeWhile isDigit s @ CHR ''.'' # takeWhile isDigit r
               else takeWhile isDigit s)"

definition numberPrefix :: "string \<Rightarrow> string" where
  "numberPrefix s =
     (case s of
        [] \<Rightarrow> []
      | c # r \<Rightarrow>
          if c = CHR ''-'' then (if numberBody r = [] then [] else c # numberBody r)
          else numberBody s)"

text \<open>\<open>q.matchAll(/-?\d+\.?\d*/g)\<close>: the matches from left to right, each search
  starting where the previous match ended.\<close>

function matchAllNumbers :: "string \<Rightarrow> string list" where
  "matchAllNumbers [] = []"
| "matchAllNumbers (c # cs) =
     (if numberPrefix (c # cs) = [] then matchAllNumbers cs
      else numberPrefix (c # cs)
             # matchAllNumbers (drop (length (numberPrefix (c # cs))) (c # cs)))"
  by pat_completeness auto
termination
  by (relation "measure length") (auto simp: neq_Nil_conv)

declare matchAllNumbers.simps [simp del]

text \<open>The comparison \<open><\<close> on numbers, and \<open>Math.max\<close> of a list, which starts from
  \<open>-Infinity\<close>, returns \<open>NaN\<close> if an argument is \<open>NaN\<close> and ranks \<open>+0\<close> above \<open>-0\<close>.\<close>

fun jsLess :: "number \<Rightarrow> number \<Rightarrow> bool" where
  "jsLess (Infinity s) (Infinity t) = (s \<and> \<not> t)"
| "jsLess (Infinity s) (Fin t b) = s"
| "jsLess (Fin s a) (Infinity t) = (\<not> t)"
| "jsLess (Fin s a) (Fin t b) = (signedValue s a < signedValue t b)"
| "jsLess x y = False"

definition mathMaxStep :: "number \<Rightarrow> number \<Rightarrow> number" where
  "mathMaxStep highest n =
     (if n = NaN \<or> highest = NaN then NaN
      else if n = Fin False 0 \<and> highest = Fin True 0 then Fin False 0
      else if jsLess highest n then n
      else highest)"

definition mathMax :: "number list \<Rightarrow> number" where
  "mathMax nums = foldl mathMaxStep (Infinity True) nums"

fun mathFloor :: "number \<Rightarrow> number" where
  "mathFloor (Fin s m) =
     (if m = 0 then Fin s 0
      else Fin (\<lfloor>signedValue s m\<rfloor> < 0) (of_int \<bar>\<lfloor>signedValue s m\<rfloor>\<bar>))"
| "mathFloor x = x"

text \<open>
  The formatting both answers share: \<open>String(v)\<close> when \<open>Math.floor(v) === v\<close>,
  otherwise \<open>String(parseFloat(v.toFixed(10)).toString())\<close>.
\<close>

definition formatNumber :: "runtime \<Rightarrow> number \<Rightarrow> string" where
  "formatNumber rt v =
     (if jsStrictEq (mathFloor v) v then numberToString rt v
      else numberToString rt (parseFloat rt (toFixed10 rt v)))"

text \<open>
  \<open>Math.max(...nums)\<close>: the spread passes every element of \<open>nums\<close> as an argument
  of the call, which throws when there are more than the engine accepts.
\<close>

definition mathMaxSpread :: "runtime \<Rightarrow> number list \<Rightarrow> exception + number" where
  "mathMaxSpread rt nums =
     (if maxArguments rt < length nums then Inl RangeError else Inr (mathMax nums))"

text \<open>
  The first handler. \<open>Inr None\<close> is the fall-through to the handlers below; the call of
  \<open>Math.max\<close> is in no \<open>try\<close> block, so its exception leaves the handler.
\<close>

definition largestAnswer :: "runtime \<Rightarrow> string \<Rightarrow> string \<Rightarrow> exception + string option" where
  "largestAnswer rt q lower =
     (if stringIncludes lower ''largest'' \<or> stringIncludes lower ''largest:''
         \<or> stringIncludes lower ''which of the following numbers is the largest''
      then (case filter (\<lambda>n. \<not> isNaN n) (map jsNumber (matchAllNumbers q)) of
              [] \<Rightarrow> Inr None
            | n # ns \<Rightarrow>
                (case mathMaxSpread rt (n # ns) of
                   Inl x \<Rightarrow> Inl x
                 | Inr m \<Rightarrow> Inr (Some (formatNumber rt m))))
      else Inr None)"

subsection \<open>Word operators\<close>

text \<open>
  \<open>s.replace(/\bw1\b|\bw2\b|.../gmi, rep)\<close> for literal lower-case words: at each
  position the alternatives are tried in order; a word matches when the text equals it
  up to case and has a word boundary on both sides. \<open>prevIsWord\<close> tells whether the
  character before the current position is a word character. The search goes on after
  the replaced text.
\<close>

definition matchesWordAt :: "bool \<Rightarrow> string \<Rightarrow> string \<Rightarrow> bool" where
  "matchesWordAt prevIsWord w s =
     (w \<noteq> [] \<and> length w \<le> length s \<and> toLowerCase (take (length w) s) = w
      \<and> prevIsWord \<noteq> isWordChar (hd s)
      \<and> isWordChar (s ! (length w - 1))
          \<noteq> (case drop (length w) s of [] \<Rightarrow> False | c # cs \<Rightarrow> isWordChar c))"

function replaceWords :: "string list \<Rightarrow> char \<Rightarrow> bool \<Rightarrow> string \<Rightarrow> string" where
  "replaceWords alts rep prevIsWord [] = []"
| "replaceWords alts rep prevIsWord (c # cs) =
     (case find (\<lambda>w. matchesWordAt prevIsWord w (c # cs)) alts of
        Some w \<Rightarrow>
          rep # replaceWords alts rep (isWordChar ((c # cs) ! (length w - 1)))
                  (drop (length w) (c # cs))
      | None \<Rightarrow> c # replaceWords alts rep (isWordChar c) cs)"
  by pat_completeness auto
termination
  by (relation "measure (\<lambda>(alts, rep, prevIsWord, s). length s)")
     (auto simp: find_Some_iff matchesWordAt_def)

declare replaceWords.simps [simp del]

text \<open>
  The four replacements. \<open>subtract(?:ed)?(?: from)?\<close> stands for its four expansions in
  the order in which the greedy optional groups are tried.
\<close>

definition preprocess :: "string \<Rightarrow> string" where
  "preprocess q =
     replaceWords [''divided by'', ''divide''] CHR ''/'' False
       (replaceWords [''times'', ''multiplied by'', ''multiply''] CHR ''*'' False
         (replaceWords
            [''minus'', ''subtracted from'', ''subtracted'', ''subtract from'', ''subtract'',
             ''subtracted''] CHR ''-'' False
           (replaceWords [''plus'', ''added to'', ''add''] CHR ''+'' False q)))"

subsection \<open>The arithmetic answer\<close>

text \<open>The class \<open>[0-9+\-*/().]\<close>.\<close>

definition isExprChar :: "char \<Rightarrow> bool" where
  "isExprChar c = (c \<in> set ''0123456789+-*/().'')"

text \<open>\<open>preprocess.match(/[0-9(][0-9+\-*/().\s]*/)\<close>: the first digit or opening
  parenthesis and the longest run of expression characters and white space after it.\<close>

definition mathCandidate :: "string \<Rightarrow> string option" where
  "mathCandidate s =
     (case dropWhile (\<lambda>c. \<not> (isDigit c \<or> c = CHR ''('')) s of
        [] \<Rightarrow> None
      | c # cs \<Rightarrow> Some (c # takeWhile (\<lambda>c. isExprChar c \<or> isSpace c) cs))"

text \<open>
  The expression handed to the evaluator: the candidate trimmed, its white space
  removed, and checked against \<open>/^[0-9+\-*/().]+$/\<close>.
\<close>

definition mathExpression :: "string \<Rightarrow> string option" where
  "mathExpression q =
     (case mathCandidate (preprocess q) of
        None \<Rightarrow> None
      | Some candidate \<Rightarrow>
          (let expr = filter (\<lambda>c. \<not> isSpace c) (trim candidate)
           in if expr \<noteq> [] \<and> list_all isExprChar expr then Some expr else None))"

text \<open>
  The \<open>try\<close> block: the formatted value when the evaluator returns a finite number;
  \<open>None\<close>, and so the handlers below, when it returns another number or throws
  (\<open>catch (e) { }\<close>).
\<close>

definition tryEvaluate :: "runtime \<Rightarrow> string \<Rightarrow> string option" where
  "tryEvaluate rt expr =
     (case evaluateExpression expr of
        Inl e \<Rightarrow> None
      | Inr v \<Rightarrow> if isFinite v then Some (formatNumber rt v) else None)"

definition mathAnswer :: "runtime \<Rightarrow> string \<Rightarrow> string option" where
  "mathAnswer rt q =
     (case mathExpression q of None \<Rightarrow> None | Some expr \<Rightarrow> tryEvaluate rt expr)"

subsection \<open>Keyword answers and the handler\<close>

definition keywordResponse :: "string \<Rightarrow> string" where
  "keywordResponse lower =
     (if stringIncludes lower ''shakespeare'' then
        ''William Shakespeare (26 April 1564 - 23 April 1616) was an ''
        @ ''English poet, playwright, and actor, widely regarded as the greatest ''
        @ ''writer in the English language and the world's pre-eminent dramatist.''
      else if stringIncludes lower ''gameid'' then ''5f34a61a''
      else if stringIncludes lower ''playerid'' then ''97b91e1a''
      else if stringIncludes lower ''your name'' then ''Rohan''
      else if stringIncludes lower ''name'' then ''andremildeluxe''
      else if stringIncludes lower ''my andrewid'' then ''andremil''
      else [])"

text \<open>
  The handler. Its argument is \<open>None\<close> for a query that is \<open>null\<close> or \<open>undefined\<close>,
  which \<open>query || ""\<close> turns into the empty string. The result is \<open>Inr\<close> of the string
  returned, or \<open>Inl\<close> of the exception that leaves the function.
\<close>

definition QueryProcessor :: "runtime \<Rightarrow> string option \<Rightarrow> exception + string" where
  "QueryProcessor rt query =
     (let q = (case query of None \<Rightarrow> [] | Some s \<Rightarrow> s);
          lower = toLowerCase q
      in case largestAnswer rt q lower of
           Inl x \<Rightarrow> Inl x
         | Inr (Some answer) \<Rightarrow> Inr answer
         | Inr None \<Rightarrow>
             (case mathAnswer rt q of
                Some answer \<Rightarrow> Inr answer
              | None \<Rightarrow> Inr (keywordResponse lower)))"

section \<open>The evaluator's arrays in the store\<close>

text \<open>
  \<open>evaluateExpression\<close> keeps its working data in four arrays, created by
  \<open>const tokens: Token[] = []\<close>, \<open>const output: Token[] = []\<close>,
  \<open>const ops: Token[] = []\<close> and \<open>const stack: number[] = []\<close>. Arrays are objects
  of the store, which outlives a call and is what one call hands to the next. The store
  lists, by address, the arrays created so far; creating an array appends an empty one.
\<close>

record store =
  tokenArrays :: "token list list"
  numberArrays :: "number list list"

definition newTokenArray :: "store \<Rightarrow> nat \<times> store" where
  "newTokenArray s = (length (tokenArrays s), s\<lparr>tokenArrays := tokenArrays s @ [[]]\<rparr>)"

definition newNumberArray :: "store \<Rightarrow> nat \<times> store" where
  "newNumberArray s = (length (numberArrays s), s\<lparr>numberArrays := numberArrays s @ [[]]\<rparr>)"

definition tokenArray :: "store \<Rightarrow> nat \<Rightarrow> token list" where
  "tokenArray s a = tokenArrays s ! a"

definition numberArray :: "store \<Rightarrow> nat \<Rightarrow> number list" where
  "numberArray s a = numberArrays s ! a"

definition writeTokens :: "nat \<Rightarrow> token list \<Rightarrow> store \<Rightarrow> store" where
  "writeTokens a ts s = s\<lparr>tokenArrays := (tokenArrays s)[a := ts]\<rparr>"

definition writeNumbers :: "nat \<Rightarrow> number list \<Rightarrow> store \<Rightarrow> store" where
  "writeNumbers a ns s = s\<lparr>numberArrays := (numberArrays s)[a := ns]\<rparr>"

text \<open>
  The three loops once more, now returning what a later call could find in the store:
  the contents of their arrays when the loop ends, also when it ends by a \<open>throw\<close>.
  The first component is the error thrown, if any. They follow \<open>tokenizeLoop\<close>,
  \<open>popToParen\<close>, \<open>drainOps\<close>, \<open>shuntingYard\<close> and \<open>evalRPN\<close> line by line;
  \<open>popOperators\<close> cannot throw and returns both arrays already.
\<close>

function tokenizeLoopA :: "token list \<Rightarrow> string \<Rightarrow> error option \<times> token list" where
  "tokenizeLoopA tokens [] = (None, tokens)"
| "tokenizeLoopA tokens (ch # rest) =
     (if ch = CHR ''('' \<or> ch = CHR '')'' then tokenizeLoopA (tokens @ [Paren ch]) rest
      else if ch = CHR ''+'' \<or> ch = CHR ''*'' \<or> ch = CHR ''/'' \<or> ch = CHR ''-'' then
        (if ch = CHR ''-'' \<and> unaryPosition tokens then
           (if CHR ''-'' # takeWhile isNumChar rest = ''-''
            then tokenizeLoopA (tokens @ [Op ch]) rest
            else if isNaN (jsNumber (CHR ''-'' # takeWhile isNumChar rest))
            then (Some InvalidNumber, tokens)
            else tokenizeLoopA
                   (tokens @ [Number (jsNumber (CHR ''-'' # takeWhile isNumChar rest))])
                   (dropWhile isNumChar rest))
         else tokenizeLoopA (tokens @ [Op ch]) rest)
      else if isNumChar ch then
        (if isNaN (jsNumber (takeWhile isNumChar (ch # rest))) then (Some InvalidNumber, tokens)
         else tokenizeLoopA
                (tokens @ [Number (jsNumber (takeWhile isNumChar (ch # rest)))])
                (dropWhile isNumChar (ch # rest)))
      else (Some (InvalidCharacter ch), tokens))"
  by pat_completeness auto
termination
  by (relation "measure (\<lambda>(tokens, s). length s)")
     (auto simp: le_imp_less_Suc length_dropWhile_le)

declare tokenizeLoopA.simps [simp del]

text \<open>When the closing parenthesis finds no opening one, everything has been popped.\<close>

fun popToParenA :: "token list \<Rightarrow> token list \<Rightarrow> error option \<times> token list \<times> token list" where
  "popToParenA output [] = (Some MismatchedParentheses, output, [])"
| "popToParenA output (popped # ops) =
     (if popped = Paren CHR ''('' then (None, output, ops)
      else popToParenA (output @ [popped]) ops)"

text \<open>The final loop throws after it has popped the parenthesis.\<close>

fun drainOpsA :: "token list \<Rightarrow> token list \<Rightarrow> error option \<times> token list \<times> token list" where
  "drainOpsA output [] = (None, output, [])"
| "drainOpsA output (Paren v # ops) = (Some MismatchedParentheses, output, ops)"
| "drainOpsA output (popped # ops) = drainOpsA (output @ [popped]) ops"

fun shuntingYardA ::
  "token list \<Rightarrow> token list \<Rightarrow> token list \<Rightarrow> error option \<times> token list \<times> token list" where
  "shuntingYardA output ops [] = drainOpsA output ops"
| "shuntingYardA output ops (Number v # ts) = shuntingYardA (output @ [Number v]) ops ts"
| "shuntingYardA output ops (Op v # ts) =
     (case popOperators v output ops of
        (output', ops') \<Rightarrow> shuntingYardA output' (Op v # ops') ts)"
| "shuntingYardA output ops (Paren v # ts) =
     (if v = CHR ''('' then shuntingYardA output (Paren v # ops) ts
      else case popToParenA output ops of
             (Some e, output', ops') \<Rightarrow> (Some e, output', ops')
           | (None, output', ops') \<Rightarrow> shuntingYardA output' ops' ts)"

text \<open>
  An operator pops \<open>b\<close> and \<open>a\<close> before any of its checks, so that at a \<open>throw\<close> the
  stack has lost its two top numbers (or the only one it had).
\<close>

fun evalRPNA :: "number list \<Rightarrow> token list \<Rightarrow> (error + number) \<times> number list" where
  "evalRPNA stack [] =
     (case stack of [v] \<Rightarrow> (Inr v, stack) | _ \<Rightarrow> (Inl MalformedExpression, stack))"
| "evalRPNA stack (Number v # ts) = evalRPNA (v # stack) ts"
| "evalRPNA stack (Op v # ts) =
     (case stack of
        b # a # stack' \<Rightarrow>
          (case applyOp v a b of
             Inl e \<Rightarrow> (Inl e, stack')
           | Inr res \<Rightarrow> evalRPNA (res # stack') ts)
      | _ \<Rightarrow> (Inl MalformedExpression, []))"
| "evalRPNA stack (Paren v # ts) = evalRPNA stack ts"

text \<open>
  The loops on the store: the contents are read from the arrays at the given addresses
  when the loop starts and are there again, as the loop leaves them, when it ends.
\<close>

definition tokenizeS :: "nat \<Rightarrow> string \<Rightarrow> store \<Rightarrow> error option \<times> store" where
  "tokenizeS tokens expr s =
     (case tokenizeLoopA (tokenArray s tokens) expr of
        (thrown, ts) \<Rightarrow> (thrown, writeTokens tokens ts s))"

definition shuntingYardS :: "nat \<Rightarrow> nat \<Rightarrow> nat \<Rightarrow> store \<Rightarrow> error option \<times> store" where
  "shuntingYardS tokens output ops s =
     (case shuntingYardA (tokenArray s output) (tokenArray s ops) (tokenArray s tokens) of
        (thrown, out, pending) \<Rightarrow>
          (thrown, writeTokens ops pending (writeTokens output out s)))"

definition evalRPNS :: "nat \<Rightarrow> nat \<Rightarrow> store \<Rightarrow> (error + number) \<times> store" where
  "evalRPNS output stack s =
     (case evalRPNA (numberArray s stack) (tokenArray s output) of
        (r, numbers) \<Rightarrow> (r, writeNumbers stack numbers s))"

text \<open>
  One call of \<open>evaluateExpression\<close> on a store: the result or the error thrown, and the
  store the call leaves behind.
\<close>

definition evaluateExpressionS :: "string \<Rightarrow> store \<Rightarrow> (error + number) \<times> store" where
  "evaluateExpressionS expr s0 =
     (case newTokenArray s0 of (tokens, s1) \<Rightarrow>
      case tokenizeS tokens expr s1 of
        (Some e, s2) \<Rightarrow> (Inl e, s2)
      | (None, s2) \<Rightarrow>
          (case newTokenArray s2 of (output, s3) \<Rightarrow>
           case newTokenArray s3 of (ops, s4) \<Rightarrow>
           case shuntingYardS tokens output ops s4 of
             (Some e, s5) \<Rightarrow> (Inl e, s5)
           | (None, s5) \<Rightarrow>
               (case newNumberArray s5 of (stack, s6) \<Rightarrow> evalRPNS output stack s6)))"

text \<open>Calls one after the other, each on the store the previous one left.\<close>

fun evaluateAll :: "store \<Rightarrow> string list \<Rightarrow> (error + number) list" where
  "evaluateAll s [] = []"
| "evaluateAll s (expr # exprs) =
     (case evaluateExpressionS expr s of (r, s') \<Rightarrow> r # evaluateAll s' exprs)"

section \<open>Rounding is exact on representable values\<close>

text \<open>
  A value \<open>M * 2^k\<close> with a 53-bit mantissa \<open>M\<close>, an exponent \<open>k\<close> of at least
  \<open>-1074\<close> and a magnitude below \<open>2^1024\<close> is a binary64 value: rounding returns it
  unchanged. In particular every integer below \<open>2^53\<close> is exact.
\<close>

lemma bitLength_pos: "0 < n \<Longrightarrow> 0 < bitLength n"
proof (induction n rule: bitLength.induct)
  case (1 n)
  show ?case
  proof (cases "n div 2 \<le> 0")
    case True
    then have "bitLength (n div 2) = 0" by (simp add: bitLength.simps)
    with 1(2) show ?thesis by (subst bitLength.simps) simp
  next
    case False
    with 1 have "0 < bitLength (n div 2)" by simp
    with 1(2) show ?thesis by (subst bitLength.simps) simp
  qed
qed

lemma bitLength_bounds:
  "0 < n \<Longrightarrow> 2 ^ nat (bitLength n - 1) \<le> n \<and> n < 2 ^ nat (bitLength n)"
proof (induction n rule: bitLength.induct)
  case (1 n)
  show ?case
  proof (cases "n = 1")
    case True
    have "bitLength 1 = 1" by (simp add: bitLength.simps)
    with True show ?thesis by simp
  next
    case False
    with 1(2) have h: "0 < n div 2" by simp
    define L where "L = bitLength (n div 2)"
    from h 1 have ih: "2 ^ nat (L - 1) \<le> n div 2" "n div 2 < 2 ^ nat L"
      by (simp_all add: L_def)
    from h have Lpos: "0 < L" unfolding L_def by (rule bitLength_pos)
    have bl: "bitLength n = L + 1" using 1(2) by (subst bitLength.simps) (simp add: L_def)
    have p: "(2::int) ^ nat L = 2 * 2 ^ nat (L - 1)"
      using Lpos by (metis Suc_nat_eq_nat_zadd1 add.commute diff_add_cancel power_Suc zle_diff1_eq)
    have "2 ^ nat L \<le> n" using ih(1) p by linarith
    moreover have "n < 2 * 2 ^ nat L" using ih(2) by linarith
    moreover have "nat (L + 1) = Suc (nat L)" using Lpos by simp
    ultimately show ?thesis by (simp add: bl)
  qed
qed


lemma bitLength_powi:
  assumes "0 < n"
  shows "(2::rat) powi (bitLength n - 1) \<le> of_int n" and "of_int n < (2::rat) powi (bitLength n)"
proof -
  from assms have pos: "0 < bitLength n" by (rule bitLength_pos)
  from bitLength_bounds [OF assms]
  have lo: "2 ^ nat (bitLength n - 1) \<le> n" and hi: "n < 2 ^ nat (bitLength n)" by simp_all
  from lo have "(of_int (2 ^ nat (bitLength n - 1)) :: rat) \<le> of_int n"
    by (simp only: of_int_le_iff)
  then show "(2::rat) powi (bitLength n - 1) \<le> of_int n"
    using pos by (simp add: power_int_nonneg_exp)
  from hi have "(of_int n :: rat) < of_int (2 ^ nat (bitLength n))"
    by (simp only: of_int_less_iff)
  then show "of_int n < (2::rat) powi (bitLength n)"
    using pos by (simp add: power_int_nonneg_exp)
qed

lemma ilog2_bounds:
  assumes "0 < q"
  shows "2 powi (ilog2 q) \<le> q" and "q < 2 powi (ilog2 q + 1)"
proof -
  obtain a b where ab: "quotient_of q = (a, b)" by (cases "quotient_of q")
  have b: "0 < b" using ab by (rule quotient_of_denom_pos)
  have q: "q = of_int a / of_int b" using ab by (rule quotient_of_div)
  have a: "0 < a" using assms b q by (simp add: zero_less_divide_iff)
  define A where "A = bitLength a"
  define B where "B = bitLength b"
  note ba = bitLength_powi [OF a, folded A_def]
  note bb = bitLength_powi [OF b, folded B_def]
  have bpos: "(0::rat) < of_int b" using b by simp
  have apos: "(0::rat) < of_int a" using a by simp
  have "q < 2 powi A / 2 powi (B - 1)"
    unfolding q using ba(2) bb(1) apos by (intro frac_less) simp_all
  also have "\<dots> = (2::rat) powi (A - B + 1)"
    by (simp add: power_int_diff [symmetric] algebra_simps)
  finally have up: "q < 2 powi (A - B + 1)" .
  have "(2::rat) powi (A - 1) / 2 powi B < q"
    unfolding q using ba(1) bb(2) bpos by (intro frac_less2) simp_all
  moreover have "(2::rat) powi (A - 1) / 2 powi B = 2 powi (A - B - 1)"
    by (simp add: power_int_diff [symmetric] algebra_simps)
  ultimately have lo: "2 powi (A - B - 1) \<le> q" by simp
  have il: "ilog2 q = (if 2 powi (A - B) \<le> q then A - B else A - B - 1)"
    by (simp add: ilog2_def ab A_def B_def Let_def)
  show "2 powi (ilog2 q) \<le> q" using lo by (simp add: il)
  show "q < 2 powi (ilog2 q + 1)" using up by (simp add: il not_le)
qed

lemma roundHalfEven_of_int: "roundHalfEven (of_int n) = n"
  by (simp add: roundHalfEven_def)

lemma roundToDouble_exact:
  assumes M: "0 < M" "M < 2 ^ 53" and k: "- 1074 \<le> k"
    and lt: "of_int M * 2 powi k < (2::rat) ^ 1024"
  shows "roundToDouble s (of_int M * 2 powi k) = Fin s (of_int M * 2 powi k)"
proof -
  define q :: rat where "q = of_int M * 2 powi k"
  have qpos: "0 < q" using M(1) by (simp add: q_def)
  define e where "e = ilog2 q"
  have "2 powi e \<le> q" unfolding e_def using qpos by (rule ilog2_bounds)
  also have "q < 2 ^ 53 * 2 powi k"
  proof -
    have "(of_int M :: rat) < of_int (2 ^ 53)" using M(2) by (simp only: of_int_less_iff)
    then show ?thesis by (simp add: q_def)
  qed
  also have "\<dots> = (2::rat) powi (53 + k)"
    by (simp add: power_int_add)
  finally have "(2::rat) powi e < 2 powi (53 + k)" .
  then have e: "e < 53 + k"
    by (rule_tac ccontr) (simp add: not_less power_int_increasing leD)
  define k' where "k' = max (e - 52) (- 1074)"
  have k': "k' \<le> k" using e k by (simp add: k'_def)
  have "q / 2 powi k' = of_int M * 2 powi (k - k')"
    by (simp add: q_def power_int_diff)
  also have "\<dots> = of_int (M * 2 ^ nat (k - k'))"
    using k' by (simp add: power_int_nonneg_exp)
  finally have "roundHalfEven (q / 2 powi k') = M * 2 ^ nat (k - k')"
    by (simp only: roundHalfEven_of_int)
  then have "of_int (roundHalfEven (q / 2 powi k')) * 2 powi k' = (of_int M :: rat) * (2 powi (k - k') * 2 powi k')"
    using k' by (simp add: power_int_nonneg_exp)
  also have "\<dots> = q"
    by (simp add: q_def power_int_add [symmetric])
  finally have r: "of_int (roundHalfEven (q / 2 powi k')) * 2 powi k' = q" .
  have "roundToDouble s q = Fin s q"
    using qpos lt r by (simp add: roundToDouble_def Let_def e_def [symmetric] k'_def [symmetric] q_def [symmetric] not_le)
  then show ?thesis by (simp add: q_def)
qed

lemma roundToDouble_numeral:
  assumes "numeral w < (9007199254740992::int)"
  shows "roundToDouble s (numeral w) = Fin s (numeral w)"
proof -
  have "(of_int (numeral w) :: rat) < of_int 9007199254740992"
    using assms by (simp only: of_int_less_iff)
  then have a: "(numeral w :: rat) < 9007199254740992" by simp
  have b: "(9007199254740992 :: rat) < 2 ^ 1024" by simp
  from a b have c: "(numeral w :: rat) < 2 ^ 1024" by (rule less_trans)
  have "roundToDouble s (of_int (numeral w) * 2 powi 0) = Fin s (of_int (numeral w) * 2 powi 0)"
  proof (rule roundToDouble_exact)
    show "(0::int) < numeral w" by simp
    show "numeral w < (2::int) ^ 53" using assms by simp
    show "- 1074 \<le> (0::int)" by simp
    show "of_int (numeral w) * 2 powi 0 < (2::rat) ^ 1024" using c by simp
  qed
  then show ?thesis by simp
qed

section \<open>Running the evaluator on concrete input\<close>

lemma roundToDouble_zero: "roundToDouble s 0 = Fin s 0"
  by (simp add: roundToDouble_def)

lemma roundToDouble_one: "roundToDouble s 1 = Fin s 1"
  using roundToDouble_exact [of 1 0 s] by simp

lemma roundToDouble_half:
  assumes "numeral w < (9007199254740992::int)"
  shows "roundToDouble s (numeral w / 2) = Fin s (numeral w / 2)"
proof -
  have eq: "of_int (numeral w) * 2 powi (- 1) = (numeral w :: rat) / 2"
    by (simp add: power_int_minus_divide)
  have "(of_int (numeral w) :: rat) < of_int 9007199254740992"
    using assms by (simp only: of_int_less_iff)
  then have a: "(numeral w :: rat) < 9007199254740992" by simp
  have b: "(9007199254740992 :: rat) < 2 ^ 1024" by simp
  from a b have c: "(numeral w :: rat) < 2 ^ 1024" by (rule less_trans)
  have "(0::rat) < numeral w" by simp
  then have "(numeral w :: rat) / 2 < numeral w" by linarith
  from this c have d: "(numeral w :: rat) / 2 < 2 ^ 1024" by (rule less_trans)
  have "roundToDouble s (of_int (numeral w) * 2 powi (- 1)) = Fin s (of_int (numeral w) * 2 powi (- 1))"
  proof (rule roundToDouble_exact)
    show "(0::int) < numeral w" by simp
    show "numeral w < (2::int) ^ 53" using assms by simp
    show "- 1074 \<le> (- 1::int)" by simp
    show "of_int (numeral w) * 2 powi (- 1) < (2::rat) ^ 1024" using d by (simp only: eq)
  qed
  then show ?thesis by (simp only: eq)
qed

lemmas run_simps = evaluateExpression_def tokenize_def tokenizeLoop.simps toRPN_def
  precedence_def applyOp_def isNumChar_def isDigit_def isNaN_def jsSub_def signedValue_def
  jsNumber_def strUnsignedDecimal_def digitVal_def
  roundToDouble_numeral roundToDouble_zero roundToDouble_one roundToDouble_half

lemma jsNeg_roundToDouble: "jsNeg (roundToDouble s m) = roundToDouble (\<not> s) m"
  by (simp add: roundToDouble_def Let_def)

lemma isDigit_minus [simp]: "\<not> isDigit CHR ''-''"
  by (simp add: isDigit_def)

lemma isDigit_point [simp]: "\<not> isDigit CHR ''.''"
  by (simp add: isDigit_def)

section \<open>Operator precedence and associativity\<close>

text \<open>
  C1: multiplication and division bind tighter than addition and subtraction.
  \<open>"2+3*4"\<close> evaluates to 14 and \<open>"(2+3)*4"\<close> to 20; for any three numbers the
  postfix form of \<open>a + b * c\<close> applies \<open>*\<close> to \<open>b\<close> and \<open>c\<close> first, that of
  \<open>a - b / c\<close> applies \<open>/\<close> first, and that of \<open>a * b + c\<close> applies \<open>*\<close> to \<open>a\<close> and
  \<open>b\<close> first.
\<close>

theorem C1_precedence:
  "evaluateExpression ''2+3*4'' = Inr (Fin False 14)
   \<and> evaluateExpression ''(2+3)*4'' = Inr (Fin False 20)
   \<and> toRPN [Number a, Op CHR ''+'', Number b, Op CHR ''*'', Number c]
       = Inr [Number a, Number b, Number c, Op CHR ''*'', Op CHR ''+'']
   \<and> toRPN [Number a, Op CHR ''-'', Number b, Op CHR ''/'', Number c]
       = Inr [Number a, Number b, Number c, Op CHR ''/'', Op CHR ''-'']
   \<and> toRPN [Number a, Op CHR ''*'', Number b, Op CHR ''+'', Number c]
       = Inr [Number a, Number b, Op CHR ''*'', Number c, Op CHR ''+'']"
  by (simp add: run_simps)

text \<open>
  C4: operators of equal precedence associate to the left. \<open>"8-3-2"\<close> evaluates to 3
  and \<open>"20/4/5"\<close> to 1; in the parser a pending operator \<open>w\<close> on top of the stack
  whose precedence is greater than or equal to that of the incoming operator \<open>v\<close> is
  moved to the output before \<open>v\<close> is pushed.
\<close>

theorem C4_left_associative:
  "evaluateExpression ''8-3-2'' = Inr (Fin False 3)
   \<and> evaluateExpression ''20/4/5'' = Inr (Fin False 1)
   \<and> (precedence v \<le> precedence w \<longrightarrow>
        popOperators v output (Op w # ops) = popOperators v (output @ [Op w]) ops
        \<and> shuntingYard output (Op w # ops) (Op v # ts)
          = shuntingYard (output @ [Op w]) ops (Op v # ts))"
proof -
  have "evaluateExpression ''8-3-2'' = Inr (Fin False 3)"
    by (simp add: run_simps)
  moreover have "evaluateExpression ''20/4/5'' = Inr (Fin False 1)"
    by (simp add: run_simps)
  moreover have "precedence v \<le> precedence w \<longrightarrow>
        popOperators v output (Op w # ops) = popOperators v (output @ [Op w]) ops
        \<and> shuntingYard output (Op w # ops) (Op v # ts)
          = shuntingYard (output @ [Op w]) ops (Op v # ts)"
    by (auto simp: le_less)
  ultimately show ?thesis by blast
qed

theorem C4_left_associative_witness:
  "precedence CHR ''-'' \<le> precedence CHR ''-''
   \<and> popOperators CHR ''-'' [Number (Fin False 8), Number (Fin False 3)] [Op CHR ''-'']
     = ([Number (Fin False 8), Number (Fin False 3), Op CHR ''-''], [])"
  using C4_left_associative [of "CHR ''-''" "CHR ''-''" "[Number (Fin False 8), Number (Fin False 3)]" "[]" "[]"]
  by simp

section \<open>Errors of the evaluator\<close>

text \<open>
  C2: \<open>"7/2"\<close> evaluates to 3.5 and \<open>"5/0"\<close> fails with \<open>DivisionByZero\<close>. The
  operator \<open>/\<close> fails with \<open>DivisionByZero\<close> exactly when its right operand is a zero
  (of either sign), so a division by zero never returns a value; in the postfix loop a
  \<open>/\<close> that finds a zero on top of a stack of at least two numbers ends the whole
  evaluation with that error.
\<close>

theorem C2_division_by_zero:
  "evaluateExpression ''7/2'' = Inr (Fin False (7 / 2))
   \<and> evaluateExpression ''5/0'' = Inl DivisionByZero
   \<and> (applyOp CHR ''/'' a b = Inl DivisionByZero \<longleftrightarrow> (b = Fin False 0 \<or> b = Fin True 0))
   \<and> evalRPN (Fin s 0 # a # stack) (Op CHR ''/'' # ts) = Inl DivisionByZero"
proof -
  have "evaluateExpression ''7/2'' = Inr (Fin False (7 / 2))"
    by (simp add: run_simps)
  moreover have "evaluateExpression ''5/0'' = Inl DivisionByZero"
    by (simp add: run_simps)
  moreover have "applyOp CHR ''/'' a b = Inl DivisionByZero \<longleftrightarrow> (b = Fin False 0 \<or> b = Fin True 0)"
    by (cases b) (auto simp: applyOp_def signedValue_def)
  moreover have "evalRPN (Fin s 0 # a # stack) (Op CHR ''/'' # ts) = Inl DivisionByZero"
    by (simp add: applyOp_def signedValue_def)
  ultimately show ?thesis by blast
qed

text \<open>
  C3: unbalanced parentheses are rejected. \<open>"(2+3"\<close> fails with
  \<open>MismatchedParentheses\<close> (an opening parenthesis is left on the operator stack when
  the stack is emptied) and so does \<open>"2+3)"\<close> (the closing parenthesis empties the
  stack without finding an opening one).
\<close>

theorem C3_mismatched_parentheses:
  "evaluateExpression ''(2+3'' = Inl MismatchedParentheses
   \<and> evaluateExpression ''2+3)'' = Inl MismatchedParentheses
   \<and> drainOps output (Paren CHR ''('' # ops) = Inl MismatchedParentheses
   \<and> popToParen output [] = Inl MismatchedParentheses"
  by (simp add: run_simps)

section \<open>The minus sign and decimal points in the tokenizer\<close>

text \<open>
  C6: a \<open>-\<close> directly before an opening parenthesis becomes an operator token of its
  own, whatever was scanned before; \<open>"-(3+5)"\<close> is tokenized with a leading operator
  \<open>-\<close> and its evaluation fails with \<open>MalformedExpression\<close>.
\<close>

theorem C6_minus_before_parenthesis:
  "tokenizeLoop tokens (CHR ''-'' # CHR ''('' # rest)
     = tokenizeLoop (tokens @ [Op CHR ''-'']) (CHR ''('' # rest)
   \<and> tokenize ''-(3+5)''
     = Inr [Op CHR ''-'', Paren CHR ''('', Number (Fin False 3), Op CHR ''+'',
            Number (Fin False 5), Paren CHR '')'']
   \<and> evaluateExpression ''-(3+5)'' = Inl MalformedExpression"
  by (simp add: run_simps)

lemma count_point_digits: "list_all isDigit s \<Longrightarrow> count_list s CHR ''.'' = 0"
  by (induction s) auto

lemma strUnsignedDecimal_two_points:
  assumes "list_all isNumChar s" and "2 \<le> count_list s CHR ''.''"
  shows "strUnsignedDecimal s = None"
proof -
  define ip where "ip = takeWhile isDigit s"
  define rs where "rs = dropWhile isDigit s"
  have s: "s = ip @ rs" by (simp add: ip_def rs_def)
  have "list_all isDigit ip" unfolding ip_def list_all_iff by (auto dest: set_takeWhileD)
  then have "count_list ip CHR ''.'' = 0" by (rule count_point_digits)
  with assms(2) have c: "2 \<le> count_list rs CHR ''.''" by (simp add: s)
  then obtain d fp where rs: "rs = d # fp" by (cases rs) auto
  have "\<not> isDigit d" using hd_dropWhile [of isDigit s] by (simp add: rs_def [symmetric] rs)
  moreover have "isNumChar d" using assms(1) by (simp add: s rs)
  ultimately have d: "d = CHR ''.''" by (simp add: isNumChar_def)
  from c have "1 \<le> count_list fp CHR ''.''" by (simp add: rs d)
  then have "CHR ''.'' \<in> set fp" by (metis count_list_0_iff not_one_le_zero)
  then have "\<exists>x\<in>set fp. \<not> isDigit x" using isDigit_point by blast
  then have "\<not> list_all isDigit fp" by (simp add: list_all_iff)
  then show ?thesis
    by (simp add: strUnsignedDecimal_def ip_def [symmetric] rs_def [symmetric] rs)
qed

lemma jsNumber_two_points:
  assumes "list_all isNumChar s" and "2 \<le> count_list s CHR ''.''"
  shows "jsNumber s = NaN"
proof -
  obtain c r where s: "s = c # r" using assms(2) by (cases s) auto
  have "isNumChar c" using assms(1) by (simp add: s)
  then have "c \<noteq> CHR ''-''" by (auto simp: isNumChar_def)
  then show ?thesis
    using strUnsignedDecimal_two_points [OF assms] by (simp add: jsNumber_def s)
qed

text \<open>
  C5, as the code has it: a run of digits and \<open>.\<close> is scanned as one run, but a run
  with more than one decimal point is not a numeric literal, \<open>Number\<close> returns \<open>NaN\<close>
  for it, and the check \<open>Number.isNaN(value)\<close> makes the tokenizer fail with
  \<open>InvalidNumber\<close>; no number token is produced.
\<close>

theorem C5_multiple_points_rejected:
  "isNumChar ch \<and> 2 \<le> count_list (takeWhile isNumChar (ch # rest)) CHR ''.'' \<longrightarrow>
     tokenizeLoop tokens (ch # rest) = Inl InvalidNumber"
proof
  assume a: "isNumChar ch \<and> 2 \<le> count_list (takeWhile isNumChar (ch # rest)) CHR ''.''"
  have l: "list_all isNumChar (takeWhile isNumChar (ch # rest))"
    unfolding list_all_iff by (auto dest: set_takeWhileD)
  from a have c: "2 \<le> count_list (takeWhile isNumChar (ch # rest)) CHR ''.''"
    by (rule conjunct2)
  from l c have "jsNumber (takeWhile isNumChar (ch # rest)) = NaN"
    by (rule jsNumber_two_points)
  moreover from a have "ch \<noteq> CHR ''('' \<and> ch \<noteq> CHR '')'' \<and> ch \<noteq> CHR ''+'' \<and> ch \<noteq> CHR ''*''
      \<and> ch \<noteq> CHR ''/'' \<and> ch \<noteq> CHR ''-''"
    by (auto simp: isNumChar_def isDigit_def)
  ultimately show "tokenizeLoop tokens (ch # rest) = Inl InvalidNumber"
    using a by (simp add: tokenizeLoop.simps isNaN_def)
qed

theorem C5_multiple_points_rejected_witness:
  "isNumChar CHR ''1'' \<and> 2 \<le> count_list (takeWhile isNumChar ''1.2.3+4'') CHR ''.''
   \<and> tokenizeLoop [] ''1.2.3+4'' = Inl InvalidNumber"
  using C5_multiple_points_rejected [of "CHR ''1''" "''.2.3+4''" "[]"]
  by (simp add: isNumChar_def isDigit_def)

text \<open>
  The input \<open>"1.2.3"\<close> is not accepted as a number token: tokenizing it fails.
\<close>

theorem C5_multiple_points_counterexample:
  "jsNumber ''1.2.3'' = NaN
   \<and> tokenize ''1.2.3'' = Inl InvalidNumber
   \<and> evaluateExpression ''1.2.3'' = Inl InvalidNumber"
  by (simp add: run_simps)

text \<open>
  Where a \<open>-\<close> is read as a sign: at the start of the input and after an operator or
  an opening parenthesis, not after a number or a closing parenthesis.
\<close>

lemma unaryPosition_last:
  "tokens \<noteq> [] \<Longrightarrow>
     unaryPosition tokens
       = (case last tokens of Op v \<Rightarrow> True | Paren v \<Rightarrow> v = CHR ''('' | Number v \<Rightarrow> False)"
  by (cases tokens) simp_all

lemma unaryPosition_after_operator: "unaryPosition (ts @ [Op v])"
  by (simp add: unaryPosition_last)

lemma unaryPosition_after_open: "unaryPosition (ts @ [Paren CHR ''(''])"
  by (simp add: unaryPosition_last)

lemma unaryPosition_after_number: "\<not> unaryPosition (ts @ [Number n])"
  by (simp add: unaryPosition_last)

lemma unaryPosition_after_close: "\<not> unaryPosition (ts @ [Paren CHR '')''])"
  by (simp add: unaryPosition_last)

lemma strUnsignedDecimal_literal:
  assumes n: "list_all isNumChar s" and d: "list_ex isDigit s" and p: "count_list s CHR ''.'' \<le> 1"
  shows "\<exists>m. strUnsignedDecimal s = Some m"
proof -
  define ip where "ip = takeWhile isDigit s"
  define rs where "rs = dropWhile isDigit s"
  have s: "s = ip @ rs" by (simp add: ip_def rs_def)
  have ipd: "list_all isDigit ip" unfolding ip_def list_all_iff by (auto dest: set_takeWhileD)
  show ?thesis
  proof (cases rs)
    case Nil
    with d s have "ip \<noteq> []" by auto
    with Nil show ?thesis
      by (simp add: strUnsignedDecimal_def ip_def [symmetric] rs_def [symmetric])
  next
    case (Cons c fp)
    have "\<not> isDigit c" using hd_dropWhile [of isDigit s] by (simp add: rs_def [symmetric] Cons)
    moreover have "isNumChar c" using n by (simp add: s Cons)
    ultimately have c: "c = CHR ''.''" by (simp add: isNumChar_def)
    from p have "count_list fp CHR ''.'' = 0" by (simp add: s Cons c)
    then have np: "CHR ''.'' \<notin> set fp" by (simp add: count_list_0_iff)
    have "list_all isNumChar fp" using n by (simp add: s Cons)
    with np have fpd: "list_all isDigit fp" by (auto simp: list_all_iff isNumChar_def)
    from d obtain x where x: "x \<in> set s" "isDigit x" by (auto simp: list_ex_iff)
    then have "x \<noteq> CHR ''.''" by auto
    with x(1) have "x \<in> set ip \<or> x \<in> set fp" by (auto simp: s Cons c)
    then have "ip \<noteq> [] \<or> fp \<noteq> []" by auto
    with fpd show ?thesis
      by (simp add: strUnsignedDecimal_def ip_def [symmetric] rs_def [symmetric] Cons c)
  qed
qed

lemma strUnsignedDecimal_no_digit:
  assumes n: "list_all isNumChar s" and d: "\<not> list_ex isDigit s"
  shows "strUnsignedDecimal s = None"
proof -
  from d have nd: "\<forall>x\<in>set s. \<not> isDigit x" by (simp add: list_ex_iff)
  then have ip: "takeWhile isDigit s = []" by (cases s) auto
  have rs: "dropWhile isDigit s = s" using nd by (cases s) auto
  show ?thesis
  proof (cases s)
    case Nil
    then show ?thesis by (simp add: strUnsignedDecimal_def)
  next
    case (Cons c fp)
    from nd have "\<not> list_all isDigit fp \<or> fp = []" by (cases fp) (auto simp: Cons)
    then show ?thesis using ip rs
      by (auto simp: strUnsignedDecimal_def Cons)
  qed
qed

lemma roundToDouble_not_NaN: "roundToDouble s m \<noteq> NaN"
  by (simp add: roundToDouble_def Let_def)

lemma run_isNumChar: "list_all isNumChar (takeWhile isNumChar rest)"
  unfolding list_all_iff by (auto dest: set_takeWhileD)

lemma run_not_minus: "takeWhile isNumChar rest = c # cs \<Longrightarrow> c \<noteq> CHR ''-''"
proof -
  assume r: "takeWhile isNumChar rest = c # cs"
  have "c \<in> set (takeWhile isNumChar rest)" by (simp add: r)
  then have "isNumChar c" by (rule set_takeWhileD [THEN conjunct2])
  then show ?thesis by (auto simp: isNumChar_def)
qed

lemma signed_run:
  assumes "takeWhile isNumChar rest \<noteq> []"
  shows "jsNumber (CHR ''-'' # takeWhile isNumChar rest) = jsNeg (jsNumber (takeWhile isNumChar rest))"
proof -
  obtain c cs where run: "takeWhile isNumChar rest = c # cs"
    using assms by (cases "takeWhile isNumChar rest") auto
  from run_not_minus [OF run] show ?thesis
    by (simp add: run jsNumber_def jsNeg_roundToDouble split: option.splits)
qed

text \<open>
  C7, as the code has it. \<open>"5-12"\<close> evaluates to -7, \<open>"-3+5"\<close> to 2, \<open>"2*-3"\<close> to -6
  and \<open>"(-3+5)"\<close> to 2. A \<open>-\<close> at the start of the input, or directly after an
  operator token or an opening parenthesis, is scanned together with the whole run of
  digits and \<open>.\<close> that follows it as one number token, holding the negated value of
  the run, when the run is a numeric literal (it has a digit and at most one \<open>.\<close>). When
  the run is not empty and not a numeric literal, tokenizing fails with
  \<open>InvalidNumber\<close>. After a number or a closing parenthesis the \<open>-\<close> is an operator.
\<close>

theorem C7_unary_minus:
  "evaluateExpression ''5-12'' = Inr (Fin True 7)
   \<and> evaluateExpression ''-3+5'' = Inr (Fin False 2)
   \<and> evaluateExpression ''2*-3'' = Inr (Fin True 6)
   \<and> evaluateExpression ''(-3+5)'' = Inr (Fin False 2)
   \<and> ((tokens = [] \<or> (\<exists>ts v. tokens = ts @ [Op v]) \<or> (\<exists>ts. tokens = ts @ [Paren CHR ''('']))
        \<and> list_ex isDigit (takeWhile isNumChar rest)
        \<and> count_list (takeWhile isNumChar rest) CHR ''.'' \<le> 1 \<longrightarrow>
        jsNumber (takeWhile isNumChar rest) \<noteq> NaN
        \<and> tokenizeLoop tokens (CHR ''-'' # rest)
          = tokenizeLoop (tokens @ [Number (jsNeg (jsNumber (takeWhile isNumChar rest)))])
              (dropWhile isNumChar rest))
   \<and> ((tokens = [] \<or> (\<exists>ts v. tokens = ts @ [Op v]) \<or> (\<exists>ts. tokens = ts @ [Paren CHR ''('']))
        \<and> takeWhile isNumChar rest \<noteq> []
        \<and> (\<not> list_ex isDigit (takeWhile isNumChar rest)
            \<or> 2 \<le> count_list (takeWhile isNumChar rest) CHR ''.'') \<longrightarrow>
        tokenizeLoop tokens (CHR ''-'' # rest) = Inl InvalidNumber)
   \<and> tokenizeLoop (ts @ [Number n]) (CHR ''-'' # rest)
     = tokenizeLoop (ts @ [Number n] @ [Op CHR ''-'']) rest
   \<and> tokenizeLoop (ts @ [Paren CHR '')'']) (CHR ''-'' # rest)
     = tokenizeLoop (ts @ [Paren CHR '')''] @ [Op CHR ''-'']) rest"
proof -
  let ?run = "takeWhile isNumChar rest"
  let ?pos = "tokens = [] \<or> (\<exists>ts v. tokens = ts @ [Op v]) \<or> (\<exists>ts. tokens = ts @ [Paren CHR ''(''])"
  have pos: "unaryPosition tokens" if "?pos"
    using that unaryPosition_after_operator unaryPosition_after_open by auto
  have e1: "evaluateExpression ''5-12'' = Inr (Fin True 7)"
    by (simp add: run_simps)
  have e2: "evaluateExpression ''-3+5'' = Inr (Fin False 2)"
    by (simp add: run_simps)
  have e3: "evaluateExpression ''2*-3'' = Inr (Fin True 6)"
    by (simp add: run_simps)
  have e4: "evaluateExpression ''(-3+5)'' = Inr (Fin False 2)"
    by (simp add: run_simps)
  have a: "jsNumber ?run \<noteq> NaN
        \<and> tokenizeLoop tokens (CHR ''-'' # rest)
          = tokenizeLoop (tokens @ [Number (jsNeg (jsNumber ?run))]) (dropWhile isNumChar rest)"
    if p: "?pos" and d: "list_ex isDigit ?run" and c: "count_list ?run CHR ''.'' \<le> 1"
  proof -
    from d have ne: "?run \<noteq> []" by auto
    then obtain x xs where run: "?run = x # xs" by (cases ?run) auto
    from strUnsignedDecimal_literal [OF run_isNumChar d c]
    obtain m where m: "strUnsignedDecimal ?run = Some m" ..
    have n: "jsNumber ?run = roundToDouble False m"
      using run_not_minus [OF run] m by (simp add: jsNumber_def run)
    then have nn: "jsNumber ?run \<noteq> NaN" by (simp add: roundToDouble_not_NaN)
    have "jsNumber (CHR ''-'' # ?run) = roundToDouble True m"
      using m by (simp add: jsNumber_def)
    then have sn: "\<not> isNaN (jsNumber (CHR ''-'' # ?run))"
      by (simp add: isNaN_def roundToDouble_not_NaN)
    from pos [OF p] ne sn signed_run [OF ne] nn show ?thesis
      by (simp add: tokenizeLoop.simps)
  qed
  have b: "tokenizeLoop tokens (CHR ''-'' # rest) = Inl InvalidNumber"
    if p: "?pos" and ne: "?run \<noteq> []"
      and bad: "\<not> list_ex isDigit ?run \<or> 2 \<le> count_list ?run CHR ''.''"
  proof -
    obtain x xs where run: "?run = x # xs" using ne by (cases ?run) auto
    from bad have "strUnsignedDecimal ?run = None"
      using strUnsignedDecimal_no_digit [OF run_isNumChar]
        strUnsignedDecimal_two_points [OF run_isNumChar] by blast
    then have "jsNumber (CHR ''-'' # ?run) = NaN" by (simp add: jsNumber_def)
    with pos [OF p] ne show ?thesis by (simp add: tokenizeLoop.simps isNaN_def)
  qed
  have c: "tokenizeLoop (ts @ [Number n]) (CHR ''-'' # rest)
     = tokenizeLoop (ts @ [Number n] @ [Op CHR ''-'']) rest"
    using unaryPosition_after_number [of ts n] by (simp add: tokenizeLoop.simps)
  have d: "tokenizeLoop (ts @ [Paren CHR '')'']) (CHR ''-'' # rest)
     = tokenizeLoop (ts @ [Paren CHR '')''] @ [Op CHR ''-'']) rest"
    using unaryPosition_after_close [of ts] by (simp add: tokenizeLoop.simps)
  from e1 e2 e3 e4 a b c d show ?thesis by blast
qed

theorem C7_unary_minus_witness:
  "(\<exists>ts v. [Number (Fin False 2), Op CHR ''*''] = ts @ [Op v])
   \<and> list_ex isDigit (takeWhile isNumChar ''3+5'')
   \<and> count_list (takeWhile isNumChar ''3+5'') CHR ''.'' \<le> 1
   \<and> tokenizeLoop [Number (Fin False 2), Op CHR ''*''] ''-3+5''
     = tokenizeLoop [Number (Fin False 2), Op CHR ''*'', Number (Fin True 3)] ''+5''
   \<and> (\<exists>ts. [Paren CHR ''(''] = ts @ [Paren CHR ''(''])
   \<and> takeWhile isNumChar ''.+5'' \<noteq> []
   \<and> \<not> list_ex isDigit (takeWhile isNumChar ''.+5'')
   \<and> tokenizeLoop [Paren CHR ''(''] ''-.+5'' = Inl InvalidNumber"
proof -
  have p1: "\<exists>ts v. [Number (Fin False 2), Op CHR ''*''] = ts @ [Op v]"
    by (rule exI [of _ "[Number (Fin False 2)]"]) simp
  have p2: "\<exists>ts. [Paren CHR ''(''] = ts @ [Paren CHR ''('']"
    by (rule exI [of _ "[]"]) simp
  have r1: "takeWhile isNumChar ''3+5'' = ''3''" "dropWhile isNumChar ''3+5'' = ''+5''"
    by (simp_all add: isNumChar_def isDigit_def)
  have r2: "takeWhile isNumChar ''.+5'' = ''.''"
    by (simp add: isNumChar_def isDigit_def)
  have n: "jsNeg (jsNumber ''3'') = Fin True 3"
    by (simp add: jsNumber_def strUnsignedDecimal_def isDigit_def digitVal_def roundToDouble_numeral)
  have d1: "list_ex isDigit (takeWhile isNumChar ''3+5'')"
    "count_list (takeWhile isNumChar ''3+5'') CHR ''.'' \<le> 1"
    unfolding r1 by (simp_all add: isDigit_def)
  have d2: "takeWhile isNumChar ''.+5'' \<noteq> []" "\<not> list_ex isDigit (takeWhile isNumChar ''.+5'')"
    unfolding r2 by simp_all
  from C7_unary_minus [of "[Number (Fin False 2), Op CHR ''*'']" "''3+5''"] p1 d1
  have "tokenizeLoop [Number (Fin False 2), Op CHR ''*''] ''-3+5''
     = tokenizeLoop ([Number (Fin False 2), Op CHR ''*'']
         @ [Number (jsNeg (jsNumber (takeWhile isNumChar ''3+5'')))]) (dropWhile isNumChar ''3+5'')"
    by blast
  then have a: "tokenizeLoop [Number (Fin False 2), Op CHR ''*''] ''-3+5''
     = tokenizeLoop [Number (Fin False 2), Op CHR ''*'', Number (Fin True 3)] ''+5''"
    by (simp only: r1 n append.simps)
  from C7_unary_minus [of "[Paren CHR ''('']" "''.+5''"] p2 d2
  have b: "tokenizeLoop [Paren CHR ''(''] ''-.+5'' = Inl InvalidNumber"
    by blast
  from p1 p2 a b d1 d2 show ?thesis by blast
qed

text \<open>
  The \<open>-\<close> that starts \<open>"-1.2.3"\<close> is followed by a run of digits and \<open>.\<close>, and so is
  the one after the operator in \<open>"2*-."\<close>; neither becomes a number token.
\<close>

theorem C7_unary_minus_counterexample:
  "tokenize ''-1.2.3'' = Inl InvalidNumber
   \<and> evaluateExpression ''-1.2.3'' = Inl InvalidNumber
   \<and> tokenizeLoop [Number (Fin False 2), Op CHR ''*''] ''-.'' = Inl InvalidNumber"
  by (simp add: run_simps)

section \<open>Well-formed expressions\<close>















section \<open>No state is kept between calls\<close>

text \<open>
  The loops that also return the contents of their arrays return the same results and
  errors as the loops of the evaluator.
\<close>

lemma tokenizeLoopA_result:
  "tokenizeLoop tokens s
     = (case tokenizeLoopA tokens s of (None, ts) \<Rightarrow> Inr ts | (Some e, ts) \<Rightarrow> Inl e)"
proof (induction tokens s rule: tokenizeLoop.induct)
  case (1 tokens)
  show ?case by (simp add: tokenizeLoop.simps tokenizeLoopA.simps)
next
  case (2 tokens ch rest)
  note unfold = tokenizeLoop.simps(2) tokenizeLoopA.simps(2)
  let ?run = "takeWhile isNumChar rest"
  consider (paren) "ch = CHR ''('' \<or> ch = CHR '')''"
    | (lone) "ch = CHR ''-'' \<and> unaryPosition tokens" "?run = []"
    | (badsign) "ch = CHR ''-'' \<and> unaryPosition tokens" "?run \<noteq> []"
        "isNaN (jsNumber (CHR ''-'' # ?run))"
    | (sign) "ch = CHR ''-'' \<and> unaryPosition tokens" "?run \<noteq> []"
        "\<not> isNaN (jsNumber (CHR ''-'' # ?run))"
    | (op) "ch \<noteq> CHR ''('' \<and> ch \<noteq> CHR '')''"
        "ch = CHR ''+'' \<or> ch = CHR ''*'' \<or> ch = CHR ''/'' \<or> ch = CHR ''-''"
        "ch = CHR ''-'' \<longrightarrow> \<not> unaryPosition tokens"
    | (badnum) "ch \<noteq> CHR ''('' \<and> ch \<noteq> CHR '')''"
        "ch \<noteq> CHR ''+'' \<and> ch \<noteq> CHR ''*'' \<and> ch \<noteq> CHR ''/'' \<and> ch \<noteq> CHR ''-''"
        "isNumChar ch" "isNaN (jsNumber (ch # ?run))"
    | (num) "ch \<noteq> CHR ''('' \<and> ch \<noteq> CHR '')''"
        "ch \<noteq> CHR ''+'' \<and> ch \<noteq> CHR ''*'' \<and> ch \<noteq> CHR ''/'' \<and> ch \<noteq> CHR ''-''"
        "isNumChar ch" "\<not> isNaN (jsNumber (ch # ?run))"
    | (other) "ch \<noteq> CHR ''('' \<and> ch \<noteq> CHR '')''"
        "ch \<noteq> CHR ''+'' \<and> ch \<noteq> CHR ''*'' \<and> ch \<noteq> CHR ''/'' \<and> ch \<noteq> CHR ''-''"
        "\<not> isNumChar ch"
    by blast
  then show ?case
  proof cases
    case paren
    with "2.IH"(1) show ?thesis by (simp add: unfold)
  next
    case lone
    with "2.IH"(2) show ?thesis by (simp add: unfold)
  next
    case badsign
    then show ?thesis by (simp add: unfold)
  next
    case sign
    with "2.IH"(3) show ?thesis by (simp add: unfold)
  next
    case op
    with "2.IH"(4) show ?thesis by (auto simp: unfold)
  next
    case badnum
    then show ?thesis by (simp add: unfold)
  next
    case num
    with "2.IH"(5) show ?thesis by (simp add: unfold)
  next
    case other
    then show ?thesis by (simp add: unfold)
  qed
qed

lemma popToParenA_result:
  "popToParen out ops
     = (case popToParenA out ops of
          (None, out', ops') \<Rightarrow> Inr (out', ops') | (Some e, out', ops') \<Rightarrow> Inl e)"
  by (induction out ops rule: popToParen.induct) simp_all

lemma drainOpsA_result:
  "drainOps out ops
     = (case drainOpsA out ops of (None, out', ops') \<Rightarrow> Inr out' | (Some e, out', ops') \<Rightarrow> Inl e)"
  by (induction out ops rule: drainOps.induct) simp_all

lemma shuntingYardA_result:
  "shuntingYard out ops ts
     = (case shuntingYardA out ops ts of
          (None, out', ops') \<Rightarrow> Inr out' | (Some e, out', ops') \<Rightarrow> Inl e)"
proof (induction ts arbitrary: out ops)
  case Nil
  show ?case by (simp add: drainOpsA_result)
next
  case (Cons t ts)
  show ?case
  proof (cases t)
    case (Number v)
    then show ?thesis by (simp add: Cons.IH)
  next
    case (Op v)
    then show ?thesis by (simp add: Cons.IH split: prod.splits)
  next
    case (Paren v)
    then show ?thesis
      by (auto simp: Cons.IH popToParenA_result split: prod.splits option.splits)
  qed
qed

lemma evalRPNA_result: "evalRPN stack ts = fst (evalRPNA stack ts)"
proof (induction ts arbitrary: stack)
  case Nil
  show ?case by (simp split: list.splits)
next
  case (Cons t ts)
  show ?case
    by (cases t) (simp_all add: Cons.IH split: list.splits sum.splits)
qed

text \<open>
  Every call creates its four arrays anew, at addresses the store did not have before,
  and reads and writes no other array.
\<close>

lemma evaluateExpressionS_result:
  "fst (evaluateExpressionS expr s) = evaluateExpression expr"
  by (simp add: evaluateExpressionS_def evaluateExpression_def tokenize_def toRPN_def
      newTokenArray_def newNumberArray_def tokenizeS_def shuntingYardS_def evalRPNS_def
      tokenArray_def numberArray_def writeTokens_def writeNumbers_def nth_append
      tokenizeLoopA_result shuntingYardA_result evalRPNA_result
      split: prod.splits option.splits)

lemma evaluateExpressionS_tokenArrays:
  "take (length (tokenArrays s)) (tokenArrays (snd (evaluateExpressionS expr s))) = tokenArrays s"
  by (simp add: evaluateExpressionS_def
      newTokenArray_def newNumberArray_def tokenizeS_def shuntingYardS_def evalRPNS_def
      tokenArray_def numberArray_def writeTokens_def writeNumbers_def nth_append
      split: prod.splits option.splits)

lemma evaluateExpressionS_numberArrays:
  "take (length (numberArrays s)) (numberArrays (snd (evaluateExpressionS expr s))) = numberArrays s"
  by (simp add: evaluateExpressionS_def
      newTokenArray_def newNumberArray_def tokenizeS_def shuntingYardS_def evalRPNS_def
      tokenArray_def numberArray_def writeTokens_def writeNumbers_def nth_append
      split: prod.splits option.splits)

lemma evaluateAll_map: "evaluateAll s exprs = map evaluateExpression exprs"
proof (induction exprs arbitrary: s)
  case Nil
  show ?case by simp
next
  case (Cons expr exprs)
  obtain r s' where c: "evaluateExpressionS expr s = (r, s')"
    by (cases "evaluateExpressionS expr s")
  then have "r = evaluateExpression expr"
    using evaluateExpressionS_result [of expr s] by simp
  with c Cons.IH [of s'] show ?case by simp
qed

text \<open>
  C9: the evaluator is a function of the expression string alone. On every store the
  result of a call (the number or the error) is \<open>evaluateExpression expr\<close>, so it is
  the same on any two stores, whatever earlier calls have left there; the call changes
  no array that existed before it; and calls made one after the other, each on the
  store the previous one left, give the same result as often as the same string is
  evaluated.
\<close>

theorem C9_deterministic:
  "fst (evaluateExpressionS expr s) = evaluateExpression expr
   \<and> fst (evaluateExpressionS expr s) = fst (evaluateExpressionS expr s')
   \<and> take (length (tokenArrays s)) (tokenArrays (snd (evaluateExpressionS expr s)))
       = tokenArrays s
   \<and> take (length (numberArrays s)) (numberArrays (snd (evaluateExpressionS expr s)))
       = numberArrays s
   \<and> evaluateAll s (replicate n expr) = replicate n (evaluateExpression expr)
   \<and> evaluateAll s exprs = map evaluateExpression exprs"
  by (simp add: evaluateExpressionS_result evaluateExpressionS_tokenArrays
      evaluateExpressionS_numberArrays evaluateAll_map)

section \<open>Exceptions of the query handler\<close>

lemmas query_simps = QueryProcessor_def largestAnswer_def mathAnswer_def mathExpression_def
  mathCandidate_def tryEvaluate_def keywordResponse_def preprocess_def replaceWords.simps
  matchesWordAt_def toLowerCase_def toLowerChar_def isWordChar_def isSpace_def isExprChar_def
  trim_def isDigit_def

text \<open>The errors of the evaluator are caught.\<close>

lemma QueryProcessor_catches:
  "largestAnswer rt q (toLowerCase q) = Inr None \<Longrightarrow> mathExpression q = Some expr \<Longrightarrow>
     evaluateExpression expr = Inl e \<Longrightarrow>
     QueryProcessor rt (Some q) = Inr (keywordResponse (toLowerCase q))"
  by (simp add: QueryProcessor_def mathAnswer_def tryEvaluate_def)

lemma QueryProcessor_mismatched: "QueryProcessor rt (Some ''(2+3'') = Inr []"
  by (simp add: query_simps run_simps)

lemma QueryProcessor_empty: "QueryProcessor rt None = Inr []" "QueryProcessor rt (Some []) = Inr []"
  by (simp_all add: query_simps)

text \<open>Within the engine's limit on arguments the handler returns a string.\<close>

lemma QueryProcessor_returns:
  assumes "length (matchAllNumbers q) \<le> maxArguments rt"
  shows "\<exists>answer. QueryProcessor rt (Some q) = Inr answer"
proof -
  let ?nums = "filter (\<lambda>n. \<not> isNaN n) (map jsNumber (matchAllNumbers q))"
  have "length ?nums \<le> length (map jsNumber (matchAllNumbers q))" by (rule length_filter_le)
  also have "\<dots> = length (matchAllNumbers q)" by (rule length_map)
  finally have "length ?nums \<le> maxArguments rt" using assms by (rule order_trans)
  then have "\<not> maxArguments rt < length ?nums" by (rule leD)
  then have "\<exists>r. largestAnswer rt q (toLowerCase q) = Inr r"
    by (cases ?nums) (auto simp: largestAnswer_def mathMaxSpread_def)
  then show ?thesis
    by (auto simp: QueryProcessor_def split: option.splits)
qed

text \<open>
  A query that asks for the largest of \<open>n\<close> numbers: \<open>"largest "\<close> followed by \<open>n\<close>
  times \<open>"1,"\<close>.
\<close>

lemma matchAllNumbers_item:
  "matchAllNumbers (CHR ''1'' # CHR '','' # xs) = ''1'' # matchAllNumbers xs"
  by (simp add: matchAllNumbers.simps numberPrefix_def numberBody_def isDigit_def)

lemma matchAllNumbers_items:
  "matchAllNumbers (concat (replicate n ''1,'')) = replicate n ''1''"
  by (induction n) (simp_all add: matchAllNumbers.simps(1) matchAllNumbers_item)

lemma matchAllNumbers_largest:
  "matchAllNumbers (''largest '' @ xs) = matchAllNumbers xs"
  by (simp add: matchAllNumbers.simps numberPrefix_def numberBody_def isDigit_def)

lemma jsNumber_one: "jsNumber ''1'' = Fin False 1"
  by (simp add: jsNumber_def strUnsignedDecimal_def isDigit_def digitVal_def roundToDouble_one)

lemma largest_numbers:
  "filter (\<lambda>n. \<not> isNaN n) (map jsNumber (matchAllNumbers (''largest '' @ concat (replicate n ''1,''))))
     = replicate n (Fin False 1)"
  by (simp add: matchAllNumbers_largest matchAllNumbers_items jsNumber_one isNaN_def
      del: append.simps)

lemma includes_largest:
  "stringIncludes (toLowerCase (''largest '' @ xs)) ''largest''"
  by (simp add: toLowerCase_def toLowerChar_def)

text \<open>
  C10 asks that \<open>QueryProcessor\<close> return a string for every query and never throw. The
  errors of the evaluator are caught (\<open>QueryProcessor_catches\<close>) and a query whose
  number list fits the engine is answered (\<open>QueryProcessor_returns\<close>), but the call
  \<open>Math.max(...nums)\<close> of the list handler is in no \<open>try\<close> block: for a query that
  lists more numbers than the engine accepts as arguments of one call, the handler
  throws a \<open>RangeError\<close> and returns no string.
\<close>

theorem C10_list_handler_throws:
  "maxArguments rt < n \<longrightarrow>
     QueryProcessor rt (Some (''largest '' @ concat (replicate n ''1,''))) = Inl RangeError"
proof
  assume lim: "maxArguments rt < n"
  let ?q = "''largest '' @ concat (replicate n ''1,'')"
  from lim obtain k where n: "n = Suc k" by (cases n) auto
  have nums: "filter (\<lambda>n. \<not> isNaN n) (map jsNumber (matchAllNumbers ?q))
     = Fin False 1 # replicate k (Fin False 1)"
    using largest_numbers [of n] by (simp add: n)
  have "mathMaxSpread rt (Fin False 1 # replicate k (Fin False 1)) = Inl RangeError"
    using lim by (simp add: mathMaxSpread_def n)
  with nums have "largestAnswer rt ?q (toLowerCase ?q) = Inl RangeError"
    using includes_largest [of "concat (replicate n ''1,'')"]
    by (simp add: largestAnswer_def del: append.simps)
  then show "QueryProcessor rt (Some ?q) = Inl RangeError"
    by (simp add: QueryProcessor_def del: append.simps)
qed

theorem C10_list_handler_throws_witness:
  "\<forall>rt. maxArguments (rt\<lparr>maxArguments := 100000\<rparr>) < 200000
     \<and> QueryProcessor (rt\<lparr>maxArguments := 100000\<rparr>)
          (Some (''largest '' @ concat (replicate 200000 ''1,''))) = Inl RangeError"
proof
  fix rt :: runtime
  have h: "maxArguments (rt\<lparr>maxArguments := 100000\<rparr>) < 200000" by simp
  from C10_list_handler_throws [of "rt\<lparr>maxArguments := 100000\<rparr>" 200000] h
  have "QueryProcessor (rt\<lparr>maxArguments := 100000\<rparr>)
          (Some (''largest '' @ concat (replicate 200000 ''1,''))) = Inl RangeError"
    by (rule mp)
  with h show "maxArguments (rt\<lparr>maxArguments := 100000\<rparr>) < 200000
     \<and> QueryProcessor (rt\<lparr>maxArguments := 100000\<rparr>)
          (Some (''largest '' @ concat (replicate 200000 ''1,''))) = Inl RangeError"
    by (rule conjI)
qed

end
